theory Spec2Isabelle
  imports Main "HOL-Library.Char_ord" "HOL-Library.List_Lexorder" "HOL-Library.Multiset"
begin

section \<open>The preparation pipeline and organization resolution of flyctl\<close>

text \<open>
  A shallow embedding of \<^verbatim>\<open>internal/cli/internal/command/command.go\<close> (the preparer
  chain, the configuration loader, \<^verbatim>\<open>RequireSession\<close>, \<^verbatim>\<open>RequireOrg\<close>, the two
  organization selectors) and of \<^verbatim>\<open>runMove\<close> from the legacy \<^verbatim>\<open>cmd\<close> package.

  Go's \<^verbatim>\<open>(T, error)\<close> results are values of a sum type, \<open>Inl\<close> carrying the error.
  Everything a function does besides returning (log lines, standard output, calls to
  the remote API, prompts) is appended to an explicit trace of events that is passed
  in and returned. What the outside world answers (the operating system, the
  environment, the config file, the remote API, the user at the prompt, the standard
  library's sort) is read from a record of collaborators.
\<close>

subsection \<open>Data\<close>

text \<open>\<^verbatim>\<open>api.Organization\<close>: the fields the code reads. \<open>Type\<close> is a Go string
  (\<^verbatim>\<open>"PERSONAL"\<close>, \<^verbatim>\<open>"SHARED"\<close>), compared with \<^verbatim>\<open><\<close> bytewise, which is the
  lexicographic order on \<open>char list\<close> used here.\<close>

record Organization =
  ID :: string
  Name :: string
  Slug :: string
  Type :: string

text \<open>\<^verbatim>\<open>config.Config\<close>: the options the code reads.\<close>

record Config =
  APIBaseURL :: string
  AccessToken :: string
  Organization :: string
  LogGQLErrors :: bool

text \<open>Modelled from the spec: the package \<^verbatim>\<open>config\<close> is not among the sources. A
  configuration source (the environment, the parsed config file, the flag set) is a
  partial assignment of the options: \<open>None\<close> where the source does not set the option.\<close>

record ConfigSource =
  set_APIBaseURL :: "string option"
  set_AccessToken :: "string option"
  set_Organization :: "string option"
  set_LogGQLErrors :: "bool option"

text \<open>\<^verbatim>\<open>client.Client\<close>, built by \<^verbatim>\<open>client.FromToken\<close>.\<close>

record Client =
  token :: string

text \<open>The errors of the program. A Go panic unwinds through every caller; it is the
  value \<open>Panic\<close>, which every function below hands on unchanged.\<close>

datatype error =
    ErrNoAuthToken
  | ErrNotExist
  | InterruptErr
  | External string
  | PathError string string error
  | Errorf_working_directory error
  | Errorf_user_home_directory error
  | Errorf_Organization_not_found string
  | Wrap_Error_fetching_app error
  | Errorf_Error_setting_organization "error option"
  | WithMessage_Failed_to_move_app error
  | Panic string

text \<open>\<^verbatim>\<open>errors.Is\<close>: the error itself or one it wraps (\<^verbatim>\<open>%w\<close>, \<^verbatim>\<open>*fs.PathError\<close>,
  \<^verbatim>\<open>errors.Wrap\<close>, \<^verbatim>\<open>errors.WithMessage\<close>).\<close>

fun errors_Is :: "error \<Rightarrow> error \<Rightarrow> bool" where
  "errors_Is (PathError opn path e) target =
     (PathError opn path e = target \<or> errors_Is e target)"
| "errors_Is (Errorf_working_directory e) target =
     (Errorf_working_directory e = target \<or> errors_Is e target)"
| "errors_Is (Errorf_user_home_directory e) target =
     (Errorf_user_home_directory e = target \<or> errors_Is e target)"
| "errors_Is (Wrap_Error_fetching_app e) target =
     (Wrap_Error_fetching_app e = target \<or> errors_Is e target)"
| "errors_Is (WithMessage_Failed_to_move_app e) target =
     (WithMessage_Failed_to_move_app e = target \<or> errors_Is e target)"
| "errors_Is e target = (e = target)"

text \<open>The trace: one event per observable action, in program order. Formatted output
  is kept as the format string and its arguments.\<close>

datatype event =
    Debugf string "string list"
  | Warnf string "string list"
  | Printf string "string list"
  | Statusf string string "string list"
  | Println_move_warning
  | SetBaseURL string
  | SetErrorLog bool
  | PromptFor_update
  | GetOrganizations "string option"
  | AskOne_Select string "string list" nat
  | AskOne_Confirm string "string list"
  | Printf_moved string string
  | GetApp string
  | MoveApp string string

text \<open>The execution context. In the code it is a \<^verbatim>\<open>context.Context\<close> to which the
  packages \<^verbatim>\<open>flag\<close>, \<^verbatim>\<open>state\<close>, \<^verbatim>\<open>config\<close> and \<^verbatim>\<open>client\<close> attach values under keys
  of their own; here it is the record of those values, each absent until set. (The
  logger and the I/O streams, attached before \<^verbatim>\<open>newRunE\<close> runs, are left out: the log
  lines go to the trace.)\<close>

record Context =
  ctx_flags :: ConfigSource
  ctx_workingDir :: "string option"
  ctx_userHomeDir :: "string option"
  ctx_configDir :: "string option"
  ctx_configFile :: "string option"
  ctx_config :: "Config option"
  ctx_client :: "Client option"
  ctx_org :: "Organization option"

text \<open>\<^verbatim>\<open>cobra.Command\<close> as far as \<^verbatim>\<open>newRunE\<close> reads it: its flag set.\<close>

record Command =
  cmd_Flags :: ConfigSource

text \<open>\<^verbatim>\<open>api.App\<close> as far as \<^verbatim>\<open>runMove\<close> reads it.\<close>

record App =
  app_Name :: string
  app_Organization_Slug :: string

text \<open>\<^verbatim>\<open>cmdctx.CmdContext\<close> of the legacy commands: the arguments and the two options
  \<^verbatim>\<open>runMove\<close> reads (\<^verbatim>\<open>Config.GetString("org")\<close>, \<^verbatim>\<open>Config.GetBool("yes")\<close>).\<close>

record CmdContext =
  Args :: "string list"
  Config_org :: string
  Config_yes :: bool

text \<open>The collaborators: what the world outside the program answers during one
  invocation. \<open>sort_Slice\<close> is the standard library's \<^verbatim>\<open>sort.Slice\<close>, given the
  comparison and the slice; \<open>survey_Select\<close> is the answer of the interactive
  single-choice prompt to a list of labels (an index, or an error); \<open>config_file\<close>
  is the outcome of reading and parsing the file at a path.\<close>

record World =
  os_Getwd :: "error + string"
  os_UserHomeDir :: "error + string"
  filepath_Join :: "string \<Rightarrow> string \<Rightarrow> string"
  config_defaults :: Config
  config_env :: ConfigSource
  config_file :: "string \<Rightarrow> error + ConfigSource"
  api_GetOrganizations :: "string option \<Rightarrow> error + Organization list"
  sort_Slice :: "(Organization \<Rightarrow> Organization \<Rightarrow> bool) \<Rightarrow> Organization list \<Rightarrow> Organization list"
  survey_Select :: "string list \<Rightarrow> error + nat"
  survey_Confirm :: "string list \<Rightarrow> error + bool"
  api_GetApp :: "string \<Rightarrow> error + App"
  api_MoveApp :: "string \<Rightarrow> string \<Rightarrow> error option"

type_synonym ('c, 'e, 's) Preparer = "'c \<Rightarrow> 's \<Rightarrow> ('e + 'c) \<times> 's"

type_synonym ('c, 'e, 's) Runner = "'c \<Rightarrow> 's \<Rightarrow> 'e option \<times> 's"

subsection \<open>The preparer chain\<close>

text \<open>\<^verbatim>\<open>prepare\<close>: the loop over the preparers. The context of a failed step is
  dropped: every caller discards it when the error is not nil.\<close>

fun prepare :: "'c \<Rightarrow> ('c, 'e, 's) Preparer list \<Rightarrow> 's \<Rightarrow> ('e + 'c) \<times> 's" where
  "prepare parent [] s = (Inr parent, s)"
| "prepare parent (p # preparers) s =
     (case p parent s of
        (Inl err, s') \<Rightarrow> (Inl err, s')
      | (Inr ctx, s') \<Rightarrow> prepare ctx preparers s')"

subsection \<open>Configuration assembly\<close>

text \<open>Modelled from the spec: \<^verbatim>\<open>config.New\<close>, \<^verbatim>\<open>ApplyEnv\<close>, \<^verbatim>\<open>ApplyFile\<close> and
  \<^verbatim>\<open>ApplyFlags\<close> are not among the sources. Section 4.1: start from built-in defaults;
  apply every recognized environment variable, overwriting defaults; if a file exists,
  parse it and apply its fields, overwriting environment-derived values; apply flags
  last, a flag that is set overwrites, an unset flag never does. \<open>overlay\<close> applies one
  source: the options it sets replace the current values, the others stay.\<close>

definition overlay :: "ConfigSource \<Rightarrow> Config \<Rightarrow> Config" where
  "overlay src cfg =
     \<lparr>APIBaseURL = (case set_APIBaseURL src of None \<Rightarrow> APIBaseURL cfg | Some v \<Rightarrow> v),
      AccessToken = (case set_AccessToken src of None \<Rightarrow> AccessToken cfg | Some v \<Rightarrow> v),
      Organization = (case set_Organization src of None \<Rightarrow> Organization cfg | Some v \<Rightarrow> v),
      LogGQLErrors = (case set_LogGQLErrors src of None \<Rightarrow> LogGQLErrors cfg | Some v \<Rightarrow> v)\<rparr>"

text \<open>Modelled from the spec: a source that sets no option (no flag given, no file).\<close>

definition nothing_set :: ConfigSource where
  "nothing_set = \<lparr>set_APIBaseURL = None, set_AccessToken = None,
                   set_Organization = None, set_LogGQLErrors = None\<rparr>"

text \<open>Modelled from the spec: \<^verbatim>\<open>config.New\<close> returns the built-in defaults.\<close>

definition config_New :: "World \<Rightarrow> Config" where
  "config_New w = config_defaults w"

text \<open>Modelled from the spec: \<^verbatim>\<open>ApplyEnv\<close> overwrites the options for which a recognized
  environment variable is set.\<close>

definition ApplyEnv :: "World \<Rightarrow> Config \<Rightarrow> Config" where
  "ApplyEnv w cfg = overlay (config_env w) cfg"

text \<open>Modelled from the spec: \<^verbatim>\<open>ApplyFile\<close> overwrites the options the file sets; when
  the file cannot be read or parsed it returns the error and leaves the configuration
  as it was.\<close>

definition ApplyFile :: "World \<Rightarrow> string \<Rightarrow> Config \<Rightarrow> Config \<times> error option" where
  "ApplyFile w path cfg =
     (case config_file w path of
        Inl err \<Rightarrow> (cfg, Some err)
      | Inr src \<Rightarrow> (overlay src cfg, None))"

text \<open>Modelled from the spec: \<^verbatim>\<open>ApplyFlags\<close> overwrites the options whose flag the
  invoker has set.\<close>

definition ApplyFlags :: "ConfigSource \<Rightarrow> Config \<Rightarrow> Config" where
  "ApplyFlags flags cfg = overlay flags cfg"

subsection \<open>The common preparers\<close>

text \<open>The accessors of the packages \<^verbatim>\<open>state\<close>, \<^verbatim>\<open>config\<close> and \<^verbatim>\<open>client\<close> (not
  among the sources) assert the type of the stored value; on a context that lacks the
  value this is a panic. In the chains of \<^verbatim>\<open>newRunE\<close> every value is set before it is
  read.\<close>

definition nil_value :: error where
  "nil_value = Panic ''interface conversion: interface is nil''"

definition determineWorkingDir :: "World \<Rightarrow> (Context, error, event list) Preparer" where
  "determineWorkingDir w ctx s =
     (case os_Getwd w of
        Inl err \<Rightarrow> (Inl (Errorf_working_directory err), s)
      | Inr wd \<Rightarrow>
          (Inr (ctx\<lparr>ctx_workingDir := Some wd\<rparr>),
           s @ [Debugf ''determined working directory: %q'' [wd]]))"

definition determineUserHomeDir :: "World \<Rightarrow> (Context, error, event list) Preparer" where
  "determineUserHomeDir w ctx s =
     (case os_UserHomeDir w of
        Inl err \<Rightarrow> (Inl (Errorf_user_home_directory err), s)
      | Inr wd \<Rightarrow>
          (Inr (ctx\<lparr>ctx_userHomeDir := Some wd\<rparr>),
           s @ [Debugf ''determined user home directory: %q'' [wd]]))"

definition determineConfigDir :: "World \<Rightarrow> (Context, error, event list) Preparer" where
  "determineConfigDir w ctx s =
     (case ctx_userHomeDir ctx of
        None \<Rightarrow> (Inl nil_value, s)
      | Some home \<Rightarrow>
          (let dir = filepath_Join w home ''.fly''
           in (Inr (ctx\<lparr>ctx_configDir := Some dir\<rparr>),
               s @ [Debugf ''determined config directory: %q'' [dir]])))"

definition determineConfigFile :: "World \<Rightarrow> (Context, error, event list) Preparer" where
  "determineConfigFile w ctx s =
     (case ctx_configDir ctx of
        None \<Rightarrow> (Inl nil_value, s)
      | Some d \<Rightarrow>
          (let dir = filepath_Join w d ''config.yml''
           in (Inr (ctx\<lparr>ctx_configFile := Some dir\<rparr>),
               s @ [Debugf ''determined config file: %q'' [dir]])))"

text \<open>\<^verbatim>\<open>loadConfig\<close>: environment, then the file, then the flags. The \<^verbatim>\<open>switch\<close> on
  the error of \<^verbatim>\<open>ApplyFile\<close> has three cases: nil, \<^verbatim>\<open>errors.Is(err, fs.ErrNotExist)\<close>
  (a warning, and the loader goes on), anything else (returned).\<close>

definition loadConfig :: "World \<Rightarrow> (Context, error, event list) Preparer" where
  "loadConfig w ctx s =
     (let cfg = ApplyEnv w (config_New w)
      in case ctx_configFile ctx of
           None \<Rightarrow> (Inl nil_value, s)
         | Some path \<Rightarrow>
             (case ApplyFile w path cfg of
                (cfg', None) \<Rightarrow>
                  (Inr (ctx\<lparr>ctx_config := Some (ApplyFlags (ctx_flags ctx) cfg')\<rparr>),
                   s @ [Debugf ''config initialized.'' []])
              | (cfg', Some err) \<Rightarrow>
                  if errors_Is err ErrNotExist
                  then (Inr (ctx\<lparr>ctx_config := Some (ApplyFlags (ctx_flags ctx) cfg')\<rparr>),
                        s @ [Warnf ''no config file found at %s'' [path],
                             Debugf ''config initialized.'' []])
                  else (Inl err, s)))"

text \<open>Modelled from the spec: the package \<^verbatim>\<open>client\<close> is not among the sources.
  \<^verbatim>\<open>client.FromToken\<close> builds the client from the configured access token.\<close>

definition FromToken :: "string \<Rightarrow> Client" where
  "FromToken t = \<lparr>token = t\<rparr>"

text \<open>Modelled from the spec: a session exists when an access token is present
  (section 3, Session).\<close>

definition Authenticated :: "Client \<Rightarrow> bool" where
  "Authenticated c = (token c \<noteq> [])"

definition initClient :: "(Context, error, event list) Preparer" where
  "initClient ctx s =
     (case ctx_config ctx of
        None \<Rightarrow> (Inl nil_value, s)
      | Some cfg \<Rightarrow>
          (Inr (ctx\<lparr>ctx_client := Some (FromToken (AccessToken cfg))\<rparr>),
           s @ [SetBaseURL (APIBaseURL cfg), SetErrorLog (LogGQLErrors cfg),
                Debugf ''client initialized.'' []]))"

definition promptToUpdate :: "(Context, error, event list) Preparer" where
  "promptToUpdate ctx s = (Inr ctx, s @ [PromptFor_update])"

definition commonPreparers :: "World \<Rightarrow> (Context, error, event list) Preparer list" where
  "commonPreparers w =
     [determineWorkingDir w, determineUserHomeDir w, determineConfigDir w,
      determineConfigFile w, loadConfig w, initClient, promptToUpdate]"

subsection \<open>The dispatcher\<close>

text \<open>The context \<^verbatim>\<open>newRunE\<close> starts from: the command's flags, nothing else set.\<close>

definition flag_NewContext :: "Command \<Rightarrow> Context" where
  "flag_NewContext cmd =
     \<lparr>ctx_flags = cmd_Flags cmd, ctx_workingDir = None, ctx_userHomeDir = None,
      ctx_configDir = None, ctx_configFile = None, ctx_config = None,
      ctx_client = None, ctx_org = None\<rparr>"

text \<open>\<^verbatim>\<open>newRunE\<close>: no function for a command without a body; otherwise the common
  chain, then the command's own chain, then the body.\<close>

definition newRunE ::
  "World \<Rightarrow> (Context, error, event list) Runner option \<Rightarrow>
   (Context, error, event list) Preparer list \<Rightarrow>
   (Command \<Rightarrow> event list \<Rightarrow> error option \<times> event list) option" where
  "newRunE w fn preparers =
     (case fn of
        None \<Rightarrow> None
      | Some run \<Rightarrow>
          Some (\<lambda>cmd s.
            case prepare (flag_NewContext cmd) (commonPreparers w) s of
              (Inl err, s1) \<Rightarrow> (Some err, s1)
            | (Inr ctx, s1) \<Rightarrow>
                (case prepare ctx preparers s1 of
                   (Inl err, s2) \<Rightarrow> (Some err, s2)
                 | (Inr ctx', s2) \<Rightarrow> run ctx' s2)))"

text \<open>\<^verbatim>\<open>New\<close> stores that function in the command's \<^verbatim>\<open>RunE\<close>, which cobra calls when
  the command is executed; a command without \<^verbatim>\<open>RunE\<close> runs nothing.\<close>

definition RunE ::
  "World \<Rightarrow> (Context, error, event list) Runner option \<Rightarrow>
   (Context, error, event list) Preparer list \<Rightarrow>
   Command \<Rightarrow> event list \<Rightarrow> (error option \<times> event list) option" where
  "RunE w fn preparers cmd s = map_option (\<lambda>run. run cmd s) (newRunE w fn preparers)"

subsection \<open>Session and organization\<close>

definition RequireSession :: "(Context, error, event list) Preparer" where
  "RequireSession ctx s =
     (case ctx_client ctx of
        None \<Rightarrow> (Inl nil_value, s)
      | Some c \<Rightarrow>
          if \<not> Authenticated c then (Inl ErrNoAuthToken, s) else (Inr ctx, s))"

text \<open>The comparison both selectors hand to \<^verbatim>\<open>sort.Slice\<close>:
  \<^verbatim>\<open>orgs[i].Type < orgs[j].Type\<close>.\<close>

definition by_Type :: "Organization \<Rightarrow> Organization \<Rightarrow> bool" where
  "by_Type a b = (Type a < Type b)"

text \<open>\<^verbatim>\<open>strings.ToLower\<close> on ASCII letters; the code applies it to \<^verbatim>\<open>"PERSONAL"\<close> only.\<close>

definition ToLower :: "string \<Rightarrow> string" where
  "ToLower str =
     map (\<lambda>c. if CHR ''A'' \<le> c \<and> c \<le> CHR ''Z'' then char_of (of_char c + (32::nat)) else c) str"

text \<open>The label of an organization in both prompts: \<^verbatim>\<open>fmt.Sprintf("%s (%s)", org.Name, org.Slug)\<close>.\<close>

definition option_label :: "Organization \<Rightarrow> string" where
  "option_label org = Name org @ '' ('' @ Slug org @ '')''"

definition WithOrg :: "Context \<Rightarrow> Organization \<Rightarrow> Context" where
  "WithOrg ctx org = ctx\<lparr>ctx_org := Some org\<rparr>"

text \<open>\<^verbatim>\<open>selectOrg\<close>: one prompt over the labels; the answer indexes the slice, and an
  index outside it is a panic.\<close>

definition selectOrg :: "World \<Rightarrow> Organization list \<Rightarrow> event list \<Rightarrow> (error + Organization) \<times> event list" where
  "selectOrg w orgs s =
     (let options = map option_label orgs;
          s' = s @ [AskOne_Select ''Select organization:'' options 15]
      in case survey_Select w options of
           Inl err \<Rightarrow> (Inl err, s')
         | Inr selectedOrg \<Rightarrow>
             if selectedOrg < length orgs then (Inr (orgs ! selectedOrg), s')
             else (Inl (Panic ''index out of range''), s'))"

text \<open>The \<^verbatim>\<open>switch\<close> of \<^verbatim>\<open>RequireOrg\<close>, on the slice as \<^verbatim>\<open>sort.Slice\<close> left it: the sole
  personal organization when no slug is configured; the first organization with the
  configured slug; the prompt otherwise.\<close>

definition RequireOrg_switch ::
  "World \<Rightarrow> Context \<Rightarrow> Organization list \<Rightarrow> event list \<Rightarrow> (error + Context) \<times> event list" where
  "RequireOrg_switch w ctx orgs s =
     (case ctx_config ctx of
        None \<Rightarrow> (Inl nil_value, s)
      | Some cfg \<Rightarrow>
          (let slug = Organization cfg
           in if slug = [] \<and> length orgs = 1 \<and> Type (orgs ! 0) = ''PERSONAL''
              then (Inr (WithOrg ctx (orgs ! 0)),
                    s @ [Warnf ''Automatically selected %s organization: %s\<newline>''
                           [ToLower (Type (orgs ! 0)), Name (orgs ! 0)]])
              else if slug \<noteq> []
              then (case find (\<lambda>org. slug = Slug org) orgs of
                      Some org \<Rightarrow> (Inr (WithOrg ctx org), s)
                    | None \<Rightarrow> (Inl (Errorf_Organization_not_found slug), s))
              else (case selectOrg w orgs s of
                      (Inl err, s') \<Rightarrow> (Inl err, s')
                    | (Inr org, s') \<Rightarrow> (Inr (WithOrg ctx org), s'))))"

text \<open>\<^verbatim>\<open>RequireOrg\<close>: the session, the fetch, the sort, the switch.\<close>

definition RequireOrg :: "World \<Rightarrow> (Context, error, event list) Preparer" where
  "RequireOrg w ctx0 s =
     (case RequireSession ctx0 s of
        (Inl err, s') \<Rightarrow> (Inl err, s')
      | (Inr ctx, s') \<Rightarrow>
          (case api_GetOrganizations w None of
             Inl err \<Rightarrow> (Inl err, s' @ [GetOrganizations None])
           | Inr fetched \<Rightarrow>
               RequireOrg_switch w ctx (sort_Slice w by_Type fetched)
                 (s' @ [GetOrganizations None])))"

text \<open>\<^verbatim>\<open>selectOrganization\<close>, the selector of the legacy commands. The parameter
  \<open>slug\<close> is in the signature and nowhere in the body.\<close>

definition selectOrganization ::
  "World \<Rightarrow> string \<Rightarrow> string option \<Rightarrow> event list \<Rightarrow> (error + Organization) \<times> event list" where
  "selectOrganization w slug typeFilter s =
     (case api_GetOrganizations w typeFilter of
        Inl err \<Rightarrow> (Inl err, s @ [GetOrganizations typeFilter])
      | Inr fetched \<Rightarrow>
          if length fetched = 1 \<and> Type (fetched ! 0) = ''PERSONAL''
          then (Inr (fetched ! 0),
                s @ [GetOrganizations typeFilter,
                     Printf ''Automatically selected %s organization: %s\<newline>''
                       [ToLower (Type (fetched ! 0)), Name (fetched ! 0)]])
          else
            (let orgs = sort_Slice w by_Type fetched;
                 options = map option_label orgs;
                 s' = s @ [GetOrganizations typeFilter,
                           AskOne_Select ''Select organization:'' options 15]
             in case survey_Select w options of
                  Inl err \<Rightarrow> (Inl err, s')
                | Inr selectedOrg \<Rightarrow>
                    if selectedOrg < length orgs then (Inr (orgs ! selectedOrg), s')
                    else (Inl (Panic ''index out of range''), s')))"

subsection \<open>The legacy move command\<close>

text \<open>Modelled from the spec: \<^verbatim>\<open>isInterrupt\<close> is not among the sources. Section 6:
  cancellation of the prompt surfaces as a distinguishable error.\<close>

definition isInterrupt :: "error option \<Rightarrow> bool" where
  "isInterrupt err = (case err of None \<Rightarrow> False | Some e \<Rightarrow> errors_Is e InterruptErr)"

definition is_panic :: "error \<Rightarrow> bool" where
  "is_panic e = (case e of Panic m \<Rightarrow> True | _ \<Rightarrow> False)"

text \<open>The tail of \<^verbatim>\<open>runMove\<close>: the call of \<^verbatim>\<open>MoveApp\<close> and the closing line.\<close>

definition runMove_move :: "World \<Rightarrow> string \<Rightarrow> Organization \<Rightarrow> event list \<Rightarrow> error option \<times> event list" where
  "runMove_move w appName org s =
     (case api_MoveApp w appName (ID org) of
        Some err \<Rightarrow> (Some (WithMessage_Failed_to_move_app err), s @ [MoveApp appName (ID org)])
      | None \<Rightarrow> (None, s @ [MoveApp appName (ID org), Printf_moved appName (Slug org)]))"

text \<open>\<^verbatim>\<open>runMove\<close>. After \<^verbatim>\<open>selectOrganization\<close>: an interrupt returns nil; any other
  error is wrapped and returned (\<^verbatim>\<open>org == nil\<close> with a nil error does not arise, the
  selector returns a pointer into the slice).\<close>

definition runMove :: "World \<Rightarrow> CmdContext \<Rightarrow> event list \<Rightarrow> error option \<times> event list" where
  "runMove w commandContext s =
     (case Args commandContext of
        [] \<Rightarrow> (Some (Panic ''index out of range''), s)
      | appName # rest \<Rightarrow>
          (case api_GetApp w appName of
             Inl err \<Rightarrow> (Some (Wrap_Error_fetching_app err), s @ [GetApp appName])
           | Inr app \<Rightarrow>
               (let s1 = s @ [GetApp appName,
                              Statusf ''move'' ''App '%s' is currently in organization '%s'\<newline>''
                                [app_Name app, app_Organization_Slug app]];
                    targetOrgSlug = Config_org commandContext
                in case selectOrganization w targetOrgSlug None s1 of
                     (Inl err, s2) \<Rightarrow>
                       if is_panic err then (Some err, s2)
                       else if isInterrupt (Some err) then (None, s2)
                       else (Some (Errorf_Error_setting_organization (Some err)), s2)
                   | (Inr org, s2) \<Rightarrow>
                       if \<not> Config_yes commandContext
                       then
                         (let args = [appName, app_Organization_Slug app, Slug org];
                              s3 = s2 @ [Println_move_warning,
                                         AskOne_Confirm ''Move %s from %s to %s?'' args]
                          in case survey_Confirm w args of
                               Inl err \<Rightarrow> (Some err, s3)
                             | Inr confirm \<Rightarrow>
                                 if \<not> confirm then (None, s3)
                                 else runMove_move w appName org s3)
                       else runMove_move w appName org s2)))"

subsection \<open>What the code may expect of \<^verbatim>\<open>sort.Slice\<close>\<close>

text \<open>The documentation of \<^verbatim>\<open>sort.Slice\<close>: it sorts the slice given the comparison; the
  sort is not guaranteed to be stable, equal elements may be reversed from their
  original order. For the comparison of the selectors that is: the result holds the
  same organizations as the argument, and no organization stands before one of a
  smaller type.\<close>

definition sort_Slice_contract ::
  "((Organization \<Rightarrow> Organization \<Rightarrow> bool) \<Rightarrow> Organization list \<Rightarrow> Organization list) \<Rightarrow> bool" where
  "sort_Slice_contract srt =
     (\<forall>xs. mset (srt by_Type xs) = mset xs \<and>
           sorted_wrt (\<lambda>a b. \<not> by_Type b a) (srt by_Type xs))"

text \<open>Two sorts that meet this contract on every slice, and are what the standard
  library runs on a slice of at most twelve elements. \<open>insertionSort\<close> is the whole
  of \<^verbatim>\<open>pdqsort\<close> (Go 1.19 and later) there: each element moves left past the elements
  it is less than. \<open>quickSort_short\<close> is what \<^verbatim>\<open>quickSort\<close> (Go up to 1.18) does there:
  one pass with gap six, which swaps \<^verbatim>\<open>data[i]\<close> and \<^verbatim>\<open>data[i-6]\<close> when the former is
  less, and then the insertion sort.\<close>

fun insert_left :: "('a \<Rightarrow> 'a \<Rightarrow> bool) \<Rightarrow> 'a \<Rightarrow> 'a list \<Rightarrow> 'a list" where
  "insert_left lt x [] = [x]"
| "insert_left lt x (y # ys) =
     (if lt x y then x # y # ys else y # insert_left lt x ys)"

definition insertionSort :: "('a \<Rightarrow> 'a \<Rightarrow> bool) \<Rightarrow> 'a list \<Rightarrow> 'a list" where
  "insertionSort lt xs = fold (insert_left lt) xs []"

definition Swap :: "nat \<Rightarrow> nat \<Rightarrow> 'a list \<Rightarrow> 'a list" where
  "Swap i j xs = xs[i := xs ! j, j := xs ! i]"

definition gap_pass :: "('a \<Rightarrow> 'a \<Rightarrow> bool) \<Rightarrow> 'a list \<Rightarrow> 'a list" where
  "gap_pass lt xs =
     fold (\<lambda>i ys. if lt (ys ! i) (ys ! (i - 6)) then Swap i (i - 6) ys else ys)
       [6..<length xs] xs"

definition quickSort_short :: "('a \<Rightarrow> 'a \<Rightarrow> bool) \<Rightarrow> 'a list \<Rightarrow> 'a list" where
  "quickSort_short lt xs = insertionSort lt (gap_pass lt xs)"

text \<open>The spec's reading of the sort in \<^verbatim>\<open>RequireOrg\<close>, in its words: every personal
  entry before every shared entry, and entries of equal type in their order of the
  fetch.\<close>

definition personal_first :: "Organization list \<Rightarrow> bool" where
  "personal_first orgs =
     (\<forall>i<length orgs. \<forall>j<length orgs.
        Type (orgs ! i) = ''PERSONAL'' \<and> Type (orgs ! j) = ''SHARED'' \<longrightarrow> i < j)"

definition keeps_fetch_order :: "Organization list \<Rightarrow> Organization list \<Rightarrow> bool" where
  "keeps_fetch_order fetched orgs =
     (\<forall>t \<in> set (map Type (fetched @ orgs)).
        filter (\<lambda>org. Type org = t) orgs = filter (\<lambda>org. Type org = t) fetched)"

text \<open>The spec's reading of the precedence of the sources, in its words: the value of
  the highest source that sets the option, flags over file over environment over the
  default.\<close>

definition winner :: "'a \<Rightarrow> 'a option \<Rightarrow> 'a option \<Rightarrow> 'a option \<Rightarrow> 'a" where
  "winner dflt env file flags =
     (case flags of
        Some v \<Rightarrow> v
      | None \<Rightarrow> (case file of
                   Some v \<Rightarrow> v
                 | None \<Rightarrow> (case env of Some v \<Rightarrow> v | None \<Rightarrow> dflt)))"

text \<open>The layer the config file contributes: its fields when it was read, nothing
  when it is missing.\<close>

definition file_layer :: "World \<Rightarrow> string \<Rightarrow> ConfigSource" where
  "file_layer w path = (case config_file w path of Inr src \<Rightarrow> src | Inl err \<Rightarrow> nothing_set)"

subsection \<open>Example worlds\<close>

text \<open>Concrete inputs on which the theorems below are run. In \<open>demo\<close> the environment
  sets the base URL \<open>A\<close> and a token, the config file sets the base URL \<open>B\<close> and the
  organization slug \<open>acme\<close>, and the remote lists three organizations.\<close>

definition org_personal :: Organization where
  "org_personal = \<lparr>ID = ''o1'', Name = ''Ada'', Slug = ''personal'', Type = ''PERSONAL''\<rparr>"

definition team :: "string \<Rightarrow> Organization" where
  "team n = \<lparr>ID = n, Name = n, Slug = n, Type = ''SHARED''\<rparr>"

definition demo_file :: ConfigSource where
  "demo_file = \<lparr>set_APIBaseURL = Some ''B'', set_AccessToken = None,
                 set_Organization = Some ''acme'', set_LogGQLErrors = None\<rparr>"

definition demo :: World where
  "demo =
     \<lparr>os_Getwd = Inr ''/work'',
      os_UserHomeDir = Inr ''/home/ada'',
      filepath_Join = (\<lambda>a b. a @ ''/'' @ b),
      config_defaults = \<lparr>APIBaseURL = ''https://api.fly.io'', AccessToken = [],
                          Organization = [], LogGQLErrors = False\<rparr>,
      config_env = \<lparr>set_APIBaseURL = Some ''A'', set_AccessToken = Some ''secret'',
                     set_Organization = None, set_LogGQLErrors = None\<rparr>,
      config_file = (\<lambda>path. if path = ''/home/ada/.fly/config.yml'' then Inr demo_file
                            else Inl (PathError ''open'' path ErrNotExist)),
      api_GetOrganizations = (\<lambda>typeFilter. Inr [team ''acme'', org_personal, team ''other'']),
      sort_Slice = insertionSort,
      survey_Select = (\<lambda>options. Inr 1),
      survey_Confirm = (\<lambda>args. Inr True),
      api_GetApp = (\<lambda>name. Inr \<lparr>app_Name = name, app_Organization_Slug = ''personal''\<rparr>),
      api_MoveApp = (\<lambda>name orgID. None)\<rparr>"

definition ready :: "string \<Rightarrow> string \<Rightarrow> Context" where
  "ready t slug =
     \<lparr>ctx_flags = nothing_set, ctx_workingDir = Some ''/work'',
      ctx_userHomeDir = Some ''/home/ada'', ctx_configDir = Some ''/home/ada/.fly'',
      ctx_configFile = Some ''/home/ada/.fly/config.yml'',
      ctx_config = Some \<lparr>APIBaseURL = ''B'', AccessToken = t, Organization = slug,
                           LogGQLErrors = False\<rparr>,
      ctx_client = Some \<lparr>token = t\<rparr>, ctx_org = None\<rparr>"

definition common_trace :: "event list" where
  "common_trace =
     [Debugf ''determined working directory: %q'' [''/work''],
      Debugf ''determined user home directory: %q'' [''/home/ada''],
      Debugf ''determined config directory: %q'' [''/home/ada/.fly''],
      Debugf ''determined config file: %q'' [''/home/ada/.fly/config.yml''],
      Debugf ''config initialized.'' [], SetBaseURL ''B'', SetErrorLog False,
      Debugf ''client initialized.'' [], PromptFor_update]"

text \<open>The context as the first four common preparers leave it in \<open>demo\<close>.\<close>

definition before_load :: "ConfigSource \<Rightarrow> Context" where
  "before_load flags =
     \<lparr>ctx_flags = flags, ctx_workingDir = Some ''/work'',
      ctx_userHomeDir = Some ''/home/ada'', ctx_configDir = Some ''/home/ada/.fly'',
      ctx_configFile = Some ''/home/ada/.fly/config.yml'', ctx_config = None,
      ctx_client = None, ctx_org = None\<rparr>"

text \<open>The remote lists the personal organization only.\<close>

definition solo :: World where
  "solo = demo\<lparr>api_GetOrganizations := (\<lambda>typeFilter. Inr [org_personal])\<rparr>"

text \<open>Six shared organizations and then the personal one, and a world whose
  \<^verbatim>\<open>sort.Slice\<close> is the one of Go up to 1.18.\<close>

definition seven :: "Organization list" where
  "seven = [team ''t0'', team ''t1'', team ''t2'', team ''t3'', team ''t4'', team ''t5'', org_personal]"

definition go118 :: World where
  "go118 = demo\<lparr>api_GetOrganizations := (\<lambda>typeFilter. Inr seven), sort_Slice := quickSort_short\<rparr>"

text \<open>No config file at any path; a config file that does not parse.\<close>

definition no_file :: World where
  "no_file = demo\<lparr>config_file := (\<lambda>path. Inl (PathError ''open'' path ErrNotExist))\<rparr>"

definition bad_file :: World where
  "bad_file = demo\<lparr>config_file := (\<lambda>path. Inl (External ''yaml: did not find expected key''))\<rparr>"



text \<open>Preparers that only log their name, one succeeding and one failing, and a
  command body that only logs that it ran.\<close>

definition step_ok :: "string \<Rightarrow> (Context, error, event list) Preparer" where
  "step_ok name ctx s = (Inr ctx, s @ [Debugf name []])"

definition step_fail :: "string \<Rightarrow> (Context, error, event list) Preparer" where
  "step_fail name ctx s = (Inl (External name), s @ [Debugf name []])"

definition body :: "(Context, error, event list) Runner" where
  "body ctx s = (None, s @ [Printf ''body'' []])"

text \<open>The trace of the first four common preparers in \<open>demo\<close>, and the trace of
  \<^verbatim>\<open>runMove\<close> in \<open>demo\<close> up to the prompt.\<close>

definition to_config_file_trace :: "event list" where
  "to_config_file_trace =
     [Debugf ''determined working directory: %q'' [''/work''],
      Debugf ''determined user home directory: %q'' [''/home/ada''],
      Debugf ''determined config directory: %q'' [''/home/ada/.fly''],
      Debugf ''determined config file: %q'' [''/home/ada/.fly/config.yml'']]"


section \<open>Properties\<close>

subsection \<open>Auxiliary facts\<close>

lemma prepare_append:
  "prepare c (ps @ qs) s =
     (case prepare c ps s of (Inl e, s') \<Rightarrow> (Inl e, s') | (Inr c', s') \<Rightarrow> prepare c' qs s')"
  by (induction ps arbitrary: c s) (auto split: prod.splits sum.splits)

lemma mset_insert_left: "mset (insert_left lt x ys) = add_mset x (mset ys)"
  by (induction ys) auto

lemma mset_fold_insert_left: "mset (fold (insert_left lt) xs acc) = mset xs + mset acc"
  by (induction xs arbitrary: acc) (auto simp: mset_insert_left)

lemma mset_insertionSort: "mset (insertionSort lt xs) = mset xs"
  by (simp add: insertionSort_def mset_fold_insert_left)

lemma set_insert_left: "set (insert_left lt x ys) = insert x (set ys)"
  by (induction ys) auto

lemma sorted_insert_left:
  "sorted_wrt (\<lambda>a b. \<not> by_Type b a) ys \<Longrightarrow> sorted_wrt (\<lambda>a b. \<not> by_Type b a) (insert_left by_Type x ys)"
  by (induction ys) (auto simp: set_insert_left by_Type_def)

lemma sorted_fold_insert_left:
  "sorted_wrt (\<lambda>a b. \<not> by_Type b a) acc \<Longrightarrow>
   sorted_wrt (\<lambda>a b. \<not> by_Type b a) (fold (insert_left by_Type) xs acc)"
  by (induction xs arbitrary: acc) (auto simp: sorted_insert_left)

lemma sorted_insertionSort: "sorted_wrt (\<lambda>a b. \<not> by_Type b a) (insertionSort by_Type xs)"
  by (simp add: insertionSort_def sorted_fold_insert_left)

lemma insertionSort_contract: "sort_Slice_contract insertionSort"
  by (simp add: sort_Slice_contract_def mset_insertionSort sorted_insertionSort)

lemma mset_Swap: "i < length xs \<Longrightarrow> j < length xs \<Longrightarrow> mset (Swap i j xs) = mset xs"
  unfolding Swap_def by (metis mset_swap)

lemma length_Swap: "length (Swap i j xs) = length xs"
  by (simp add: Swap_def)

lemma gap_fold:
  "\<forall>i \<in> set is. i < length ys \<Longrightarrow>
   mset (fold (\<lambda>i ys. if lt (ys ! i) (ys ! (i - 6)) then Swap i (i - 6) ys else ys) is ys) = mset ys"
proof (induction "is" arbitrary: ys)
  case Nil
  then show ?case by simp
next
  case (Cons i "is")
  let ?ys = "if lt (ys ! i) (ys ! (i - 6)) then Swap i (i - 6) ys else ys"
  have len: "length ?ys = length ys" by (simp add: length_Swap)
  have m: "mset ?ys = mset ys" using Cons.prems by (auto simp: mset_Swap less_imp_diff_less)
  have "\<forall>i \<in> set is. i < length ?ys" using Cons.prems len by simp
  from Cons.IH[OF this] m show ?case by simp
qed

lemma mset_gap_pass: "mset (gap_pass lt xs) = mset xs"
  unfolding gap_pass_def by (rule gap_fold) simp

lemma quickSort_short_contract: "sort_Slice_contract quickSort_short"
  by (simp add: sort_Slice_contract_def quickSort_short_def mset_insertionSort mset_gap_pass sorted_insertionSort)

lemma contract_set: "sort_Slice_contract srt \<Longrightarrow> set (srt by_Type xs) = set xs"
  unfolding sort_Slice_contract_def by (metis mset_eq_setD)

lemma contract_single: "sort_Slice_contract srt \<Longrightarrow> srt by_Type [x] = [x]"
  unfolding sort_Slice_contract_def by (metis mset_single_iff mset.simps)

lemma contract_sorted: "sort_Slice_contract srt \<Longrightarrow> sorted (map Type (srt by_Type xs))"
  unfolding sort_Slice_contract_def by (simp add: sorted_map by_Type_def not_less)

lemma demo_common:
  "prepare (flag_NewContext \<lparr>cmd_Flags = nothing_set\<rparr>) (commonPreparers demo) [] =
     (Inr (ready ''secret'' ''acme''), common_trace)"
  by (simp add: commonPreparers_def flag_NewContext_def demo_def determineWorkingDir_def
      determineUserHomeDir_def determineConfigDir_def determineConfigFile_def loadConfig_def
      initClient_def promptToUpdate_def ApplyEnv_def ApplyFile_def ApplyFlags_def config_New_def
      overlay_def demo_file_def nothing_set_def ready_def common_trace_def FromToken_def Let_def)

lemma newRunE_chain:
  "newRunE w (Some fn) preparers =
     Some (\<lambda>cmd s. case prepare (flag_NewContext cmd) (commonPreparers w @ preparers) s of
                      (Inl err, s') \<Rightarrow> (Some err, s')
                    | (Inr ctx, s') \<Rightarrow> fn ctx s')"
  by (auto simp: newRunE_def prepare_append fun_eq_iff split: prod.splits sum.splits)

lemma ctx_org_WithOrg: "ctx_org (WithOrg ctx org) = Some org"
  by (simp add: WithOrg_def)

lemma ToLower_PERSONAL: "ToLower ''PERSONAL'' = ''personal''"
  by code_simp

lemma find_sorted_Some:
  assumes "sort_Slice_contract srt" and "find P (srt by_Type xs) = Some x"
  shows "x \<in> set xs \<and> P x"
proof -
  from assms(2) have "x \<in> set (srt by_Type xs) \<and> P x"
    by (auto simp: find_Some_iff)
  with assms(1) show ?thesis by (simp add: contract_set)
qed

lemma find_sorted_None:
  assumes "sort_Slice_contract srt"
  shows "(find P (srt by_Type xs) = None) = (\<forall>x \<in> set xs. \<not> P x)"
  using assms by (auto simp: find_None_iff contract_set)

lemma ready_facts:
  "ctx_client (ready t slug) = Some \<lparr>token = t\<rparr>"
  "ctx_config (ready t slug) =
     Some \<lparr>APIBaseURL = ''B'', AccessToken = t, Organization = slug, LogGQLErrors = False\<rparr>"
  by (simp_all add: ready_def)

lemma Authenticated_secret: "Authenticated \<lparr>token = ''secret''\<rparr>"
  by (simp add: Authenticated_def)

lemma demo_facts:
  "sort_Slice demo = insertionSort"
  "api_GetOrganizations demo typeFilter = Inr [team ''acme'', org_personal, team ''other'']"
  "survey_Select demo options = Inr 1"
  by (simp_all add: demo_def)

lemma sorted_personal_first:
  assumes "sorted (map Type orgs)"
  shows "personal_first orgs"
  unfolding personal_first_def
proof (intro allI impI)
  fix i j
  assume i: "i < length orgs" and j: "j < length orgs"
    and t: "Type (orgs ! i) = ''PERSONAL'' \<and> Type (orgs ! j) = ''SHARED''"
  show "i < j"
  proof (rule ccontr)
    assume "\<not> i < j"
    then have "j \<le> i" by simp
    with assms i have "map Type orgs ! j \<le> map Type orgs ! i"
      by (simp add: sorted_iff_nth_mono del: nth_map)
    with i j t have "''SHARED'' \<le> ''PERSONAL''" by simp
    then show False by simp
  qed
qed

lemma quickSort_short_seven:
  "quickSort_short by_Type seven =
     [org_personal, team ''t1'', team ''t2'', team ''t3'', team ''t4'', team ''t5'', team ''t0'']"
  by code_simp

lemma insertionSort_demo:
  "insertionSort by_Type [team ''acme'', org_personal, team ''other''] =
     [org_personal, team ''acme'', team ''other'']"
  by code_simp

lemma overlay_fields:
  "APIBaseURL (overlay src cfg) = (case set_APIBaseURL src of None \<Rightarrow> APIBaseURL cfg | Some v \<Rightarrow> v)"
  "AccessToken (overlay src cfg) = (case set_AccessToken src of None \<Rightarrow> AccessToken cfg | Some v \<Rightarrow> v)"
  "Organization (overlay src cfg) = (case set_Organization src of None \<Rightarrow> Organization cfg | Some v \<Rightarrow> v)"
  "LogGQLErrors (overlay src cfg) = (case set_LogGQLErrors src of None \<Rightarrow> LogGQLErrors cfg | Some v \<Rightarrow> v)"
  by (simp_all add: overlay_def)

lemma overlay_nothing: "overlay nothing_set cfg = cfg"
  by (simp add: overlay_def nothing_set_def)

lemma layers_winner:
  "APIBaseURL (overlay flags (overlay file (overlay env dflt))) =
     winner (APIBaseURL dflt) (set_APIBaseURL env) (set_APIBaseURL file) (set_APIBaseURL flags)"
  "AccessToken (overlay flags (overlay file (overlay env dflt))) =
     winner (AccessToken dflt) (set_AccessToken env) (set_AccessToken file) (set_AccessToken flags)"
  "Organization (overlay flags (overlay file (overlay env dflt))) =
     winner (Organization dflt) (set_Organization env) (set_Organization file) (set_Organization flags)"
  "LogGQLErrors (overlay flags (overlay file (overlay env dflt))) =
     winner (LogGQLErrors dflt) (set_LogGQLErrors env) (set_LogGQLErrors file) (set_LogGQLErrors flags)"
  by (simp_all add: overlay_fields winner_def split: option.splits)

lemma loadConfig_layers:
  assumes "ctx_configFile ctx = Some path"
    and "case config_file w path of Inr src \<Rightarrow> True | Inl err \<Rightarrow> errors_Is err ErrNotExist"
  shows "\<exists>s'. loadConfig w ctx s =
      (Inr (ctx\<lparr>ctx_config := Some (overlay (ctx_flags ctx)
              (overlay (file_layer w path) (overlay (config_env w) (config_defaults w))))\<rparr>), s')"
  using assms
  by (auto simp: loadConfig_def ApplyFile_def ApplyEnv_def ApplyFlags_def config_New_def
      file_layer_def overlay_nothing split: sum.splits)

lemma prepare_to_config_file:
  assumes "os_Getwd w = Inr wd" and "os_UserHomeDir w = Inr home"
  shows "prepare (flag_NewContext cmd)
           [determineWorkingDir w, determineUserHomeDir w, determineConfigDir w,
            determineConfigFile w] s =
         (Inr ((flag_NewContext cmd)
                 \<lparr>ctx_workingDir := Some wd, ctx_userHomeDir := Some home,
                  ctx_configDir := Some (filepath_Join w home ''.fly''),
                  ctx_configFile := Some (filepath_Join w (filepath_Join w home ''.fly'') ''config.yml'')\<rparr>),
          s @ [Debugf ''determined working directory: %q'' [wd],
               Debugf ''determined user home directory: %q'' [home],
               Debugf ''determined config directory: %q'' [filepath_Join w home ''.fly''],
               Debugf ''determined config file: %q''
                 [filepath_Join w (filepath_Join w home ''.fly'') ''config.yml'']])"
  using assms
  by (simp add: determineWorkingDir_def determineUserHomeDir_def determineConfigDir_def
      determineConfigFile_def Let_def)

lemma commonPreparers_split:
  "commonPreparers w =
     [determineWorkingDir w, determineUserHomeDir w, determineConfigDir w,
      determineConfigFile w] @ loadConfig w # [initClient, promptToUpdate]"
  by (simp add: commonPreparers_def)



lemma demo_labels:
  "option_label org_personal = ''Ada (personal)''"
  "option_label (team ''acme'') = ''acme (acme)''"
  "option_label (team ''other'') = ''other (other)''"
  by (simp_all add: option_label_def org_personal_def team_def)

lemma solo_facts:
  "api_GetOrganizations solo typeFilter = Inr [org_personal]"
  by (simp add: solo_def demo_def)


subsection \<open>The preparer chain is short-circuiting\<close>

text \<open>C1. Whenever the preparers before \<open>p\<close> succeed and \<open>p\<close> returns an error, the
  chain returns exactly that error together with the trace as \<open>p\<close> left it, whatever
  preparers \<open>qs\<close> follow: none of them runs. The dispatcher built by \<^verbatim>\<open>newRunE\<close> then
  returns the same error with the same trace, whatever the command body \<open>fn\<close> is: the
  body does not run. The failing preparer may stand in the common chain or in the
  command's own.\<close>

theorem prepare_short_circuit:
  "(prepare parent ps s = (Inr ctx, s1) \<and> p ctx s1 = (Inl err, s2) \<longrightarrow>
      prepare parent (ps @ p # qs) s = (Inl err, s2)) \<and>
   (commonPreparers w @ preparers = ps' @ p' # qs' \<and>
    prepare (flag_NewContext cmd) ps' t = (Inr ctx', t1) \<and> p' ctx' t1 = (Inl err', t2) \<longrightarrow>
      RunE w (Some fn) preparers cmd t = Some (Some err', t2))"
proof (intro conjI impI)
  assume "prepare parent ps s = (Inr ctx, s1) \<and> p ctx s1 = (Inl err, s2)"
  then show "prepare parent (ps @ p # qs) s = (Inl err, s2)"
    by (simp add: prepare_append)
next
  assume a: "commonPreparers w @ preparers = ps' @ p' # qs' \<and>
    prepare (flag_NewContext cmd) ps' t = (Inr ctx', t1) \<and> p' ctx' t1 = (Inl err', t2)"
  then have "prepare (flag_NewContext cmd) (commonPreparers w @ preparers) t = (Inl err', t2)"
    by (simp add: prepare_append)
  then show "RunE w (Some fn) preparers cmd t = Some (Some err', t2)"
    by (simp add: RunE_def newRunE_chain)
qed

text \<open>Three logging preparers of which the second fails: the trace ends with \<open>p2\<close>,
  and neither \<open>p3\<close> nor the body has written to it.\<close>

theorem prepare_short_circuit_witness:
  "prepare (ready ''secret'' ''acme'') [step_ok ''p1'', step_fail ''p2'', step_ok ''p3''] [] =
     (Inl (External ''p2''), [Debugf ''p1'' [], Debugf ''p2'' []]) \<and>
   RunE demo (Some body) [step_ok ''p1'', step_fail ''p2'', step_ok ''p3'']
     \<lparr>cmd_Flags = nothing_set\<rparr> [] =
     Some (Some (External ''p2''), common_trace @ [Debugf ''p1'' [], Debugf ''p2'' []])"
proof -
  let ?ctx = "ready ''secret'' ''acme''"
  let ?t1 = "common_trace @ [Debugf ''p1'' []]"
  let ?t2 = "common_trace @ [Debugf ''p1'' [], Debugf ''p2'' []]"
  note inst = prepare_short_circuit [where parent = ?ctx and ps = "[step_ok ''p1'']" and s = "[]"
      and ctx = ?ctx and ?s1.0 = "[Debugf ''p1'' []]" and p = "step_fail ''p2''"
      and err = "External ''p2''" and ?s2.0 = "[Debugf ''p1'' [], Debugf ''p2'' []]"
      and qs = "[step_ok ''p3'']" and w = demo
      and preparers = "[step_ok ''p1'', step_fail ''p2'', step_ok ''p3'']"
      and ps' = "commonPreparers demo @ [step_ok ''p1'']" and p' = "step_fail ''p2''"
      and qs' = "[step_ok ''p3'']" and cmd = "\<lparr>cmd_Flags = nothing_set\<rparr>" and t = "[]"
      and ctx' = ?ctx and ?t1.0 = ?t1 and err' = "External ''p2''" and ?t2.0 = ?t2 and fn = body]
  have h1: "prepare ?ctx [step_ok ''p1''] [] = (Inr ?ctx, [Debugf ''p1'' []]) \<and>
      step_fail ''p2'' ?ctx [Debugf ''p1'' []] = (Inl (External ''p2''), [Debugf ''p1'' [], Debugf ''p2'' []])"
    by (simp add: step_ok_def step_fail_def)
  have h2: "commonPreparers demo @ [step_ok ''p1'', step_fail ''p2'', step_ok ''p3''] =
        (commonPreparers demo @ [step_ok ''p1'']) @ step_fail ''p2'' # [step_ok ''p3''] \<and>
      prepare (flag_NewContext \<lparr>cmd_Flags = nothing_set\<rparr>) (commonPreparers demo @ [step_ok ''p1'']) [] =
        (Inr ?ctx, ?t1) \<and>
      step_fail ''p2'' ?ctx ?t1 = (Inl (External ''p2''), ?t2)"
    by (simp add: prepare_append demo_common step_ok_def step_fail_def)
  from inst [THEN conjunct1, THEN mp, OF h1]
  have c1: "prepare ?ctx [step_ok ''p1'', step_fail ''p2'', step_ok ''p3''] [] =
      (Inl (External ''p2''), [Debugf ''p1'' [], Debugf ''p2'' []])"
    by (simp only: append.simps)
  from inst [THEN conjunct2, THEN mp, OF h2]
  have c2: "RunE demo (Some body) [step_ok ''p1'', step_fail ''p2'', step_ok ''p3'']
      \<lparr>cmd_Flags = nothing_set\<rparr> [] = Some (Some (External ''p2''), ?t2)" .
  from c1 c2 show ?thesis by (rule conjI)
qed

subsection \<open>A configured slug selects by exact match\<close>

text \<open>C2. With a session, a non-empty slug in the configuration and a successful fetch,
  \<^verbatim>\<open>RequireOrg\<close> never prompts. If some fetched organization has exactly that slug, it
  stores one of the fetched organizations with that slug (the only one, when the slug
  is unique in the list), whatever the length of the list and the types in it. If none
  has, it fails with the error that carries the requested slug, the argument of
  \<^verbatim>\<open>fmt.Errorf(`Organization %q not found`, slug)\<close>. In both cases the trace gains the
  fetch only. The organization is stored: the field \<open>ctx_org\<close> of the returned context
  holds it.\<close>

theorem RequireOrg_slug_override:
  assumes "sort_Slice_contract (sort_Slice w)"
    and "ctx_client ctx = Some c" and "Authenticated c"
    and "ctx_config ctx = Some cfg" and "Organization cfg \<noteq> []"
    and "api_GetOrganizations w None = Inr fetched"
  shows
    "((\<exists>org \<in> set fetched. Slug org = Organization cfg) \<longrightarrow>
        (\<exists>org \<in> set fetched. Slug org = Organization cfg \<and>
           RequireOrg w ctx s = (Inr (WithOrg ctx org), s @ [GetOrganizations None]) \<and>
           ctx_org (WithOrg ctx org) = Some org)) \<and>
     (\<forall>org \<in> set fetched.
        Slug org = Organization cfg \<and>
        (\<forall>other \<in> set fetched. Slug other = Organization cfg \<longrightarrow> other = org) \<longrightarrow>
          RequireOrg w ctx s = (Inr (WithOrg ctx org), s @ [GetOrganizations None]) \<and>
          ctx_org (WithOrg ctx org) = Some org) \<and>
     ((\<forall>org \<in> set fetched. Slug org \<noteq> Organization cfg) \<longrightarrow>
        RequireOrg w ctx s =
          (Inl (Errorf_Organization_not_found (Organization cfg)), s @ [GetOrganizations None]))"
proof -
  let ?slug = "Organization cfg"
  let ?orgs = "sort_Slice w by_Type fetched"
  let ?s = "s @ [GetOrganizations None]"
  from assms have run: "RequireOrg w ctx s =
      (case find (\<lambda>org. ?slug = Slug org) ?orgs of
         Some org \<Rightarrow> (Inr (WithOrg ctx org), ?s)
       | None \<Rightarrow> (Inl (Errorf_Organization_not_found ?slug), ?s))"
    by (simp add: RequireOrg_def RequireSession_def RequireOrg_switch_def Let_def)
  note contract = assms(1)
  have found: "\<exists>org \<in> set fetched. Slug org = ?slug \<and> RequireOrg w ctx s = (Inr (WithOrg ctx org), ?s)"
    if "\<exists>org \<in> set fetched. Slug org = ?slug"
  proof (cases "find (\<lambda>org. ?slug = Slug org) ?orgs")
    case None
    with find_sorted_None [OF contract, of "\<lambda>org. ?slug = Slug org" fetched] that
    show ?thesis by auto
  next
    case (Some org)
    with find_sorted_Some [OF contract Some] run show ?thesis by auto
  qed
  have missing: "RequireOrg w ctx s = (Inl (Errorf_Organization_not_found ?slug), ?s)"
    if "\<forall>org \<in> set fetched. Slug org \<noteq> ?slug"
  proof -
    from that have "find (\<lambda>org. ?slug = Slug org) ?orgs = None"
      using find_sorted_None [OF contract, of "\<lambda>org. ?slug = Slug org" fetched] by auto
    with run show ?thesis by simp
  qed
  from found missing show ?thesis by (simp only: ctx_org_WithOrg simp_thms) blast
qed

text \<open>The spec's scenario: the slug \<open>other\<close> is found behind two other organizations,
  the slug \<open>ghost-org\<close> is not in the list.\<close>

theorem RequireOrg_slug_override_witness:
  "RequireOrg demo (ready ''secret'' ''other'') common_trace =
     (Inr (WithOrg (ready ''secret'' ''other'') (team ''other'')),
      common_trace @ [GetOrganizations None]) \<and>
   ctx_org (WithOrg (ready ''secret'' ''other'') (team ''other'')) = Some (team ''other'') \<and>
   RequireOrg demo (ready ''secret'' ''ghost-org'') common_trace =
     (Inl (Errorf_Organization_not_found ''ghost-org''), common_trace @ [GetOrganizations None])"
proof -
  let ?fetched = "[team ''acme'', org_personal, team ''other'']"
  let ?cfg = "\<lambda>slug. \<lparr>APIBaseURL = ''B'', AccessToken = ''secret'', Organization = slug,
                        LogGQLErrors = False\<rparr>"
  have contract: "sort_Slice_contract (sort_Slice demo)"
    by (simp add: demo_facts insertionSort_contract)
  have set1: "Organization (?cfg ''other'') \<noteq> []" and set2: "Organization (?cfg ''ghost-org'') \<noteq> []"
    by simp_all
  have one: "team ''other'' \<in> set ?fetched"
    by simp
  have only: "Slug (team ''other'') = Organization (?cfg ''other'') \<and>
      (\<forall>other \<in> set ?fetched. Slug other = Organization (?cfg ''other'') \<longrightarrow> other = team ''other'')"
    by (simp add: team_def org_personal_def)
  have none: "\<forall>org \<in> set ?fetched. Slug org \<noteq> Organization (?cfg ''ghost-org'')"
    by (simp add: team_def org_personal_def)
  note found = RequireOrg_slug_override [OF contract ready_facts(1) Authenticated_secret
      ready_facts(2) set1 demo_facts(2), of common_trace, THEN conjunct2, THEN conjunct1, rule_format]
  note missing = RequireOrg_slug_override [OF contract ready_facts(1) Authenticated_secret
      ready_facts(2) set2 demo_facts(2), of common_trace, THEN conjunct2, THEN conjunct2, THEN mp]
  have c1: "RequireOrg demo (ready ''secret'' ''other'') common_trace =
     (Inr (WithOrg (ready ''secret'' ''other'') (team ''other'')),
      common_trace @ [GetOrganizations None]) \<and>
     ctx_org (WithOrg (ready ''secret'' ''other'') (team ''other'')) = Some (team ''other'')"
    by (rule found [OF one only])
  from missing [OF none] have c2: "RequireOrg demo (ready ''secret'' ''ghost-org'') common_trace =
     (Inl (Errorf_Organization_not_found ''ghost-org''), common_trace @ [GetOrganizations None])"
    by simp
  from c1 c2 show ?thesis by blast
qed

subsection \<open>The list is sorted by type, not stably\<close>

text \<open>C3, as amended. With a session and a successful fetch, \<^verbatim>\<open>RequireOrg\<close> evaluates
  its switch on the slice as \<^verbatim>\<open>sort.Slice\<close> left it. Whatever \<^verbatim>\<open>sort.Slice\<close> does
  within its contract, that slice holds the fetched organizations, is ordered by type,
  and has every \<^verbatim>\<open>PERSONAL\<close> entry before every \<^verbatim>\<open>SHARED\<close> entry. Nothing is
  promised about entries of equal type.\<close>

theorem RequireOrg_sorts_by_type:
  "sort_Slice_contract (sort_Slice w) \<and>
   ctx_client ctx = Some c \<and> Authenticated c \<and>
   api_GetOrganizations w None = Inr fetched \<longrightarrow>
     RequireOrg w ctx s =
       RequireOrg_switch w ctx (sort_Slice w by_Type fetched) (s @ [GetOrganizations None]) \<and>
     mset (sort_Slice w by_Type fetched) = mset fetched \<and>
     sorted (map Type (sort_Slice w by_Type fetched)) \<and>
     personal_first (sort_Slice w by_Type fetched)"
proof
  assume a: "sort_Slice_contract (sort_Slice w) \<and>
   ctx_client ctx = Some c \<and> Authenticated c \<and>
   api_GetOrganizations w None = Inr fetched"
  then have run: "RequireOrg w ctx s =
       RequireOrg_switch w ctx (sort_Slice w by_Type fetched) (s @ [GetOrganizations None])"
    by (simp add: RequireOrg_def RequireSession_def)
  from a have perm: "mset (sort_Slice w by_Type fetched) = mset fetched"
    by (simp add: sort_Slice_contract_def)
  from a have ordered: "sorted (map Type (sort_Slice w by_Type fetched))"
    by (simp add: contract_sorted)
  from run perm ordered sorted_personal_first [OF ordered]
  show "RequireOrg w ctx s =
       RequireOrg_switch w ctx (sort_Slice w by_Type fetched) (s @ [GetOrganizations None]) \<and>
     mset (sort_Slice w by_Type fetched) = mset fetched \<and>
     sorted (map Type (sort_Slice w by_Type fetched)) \<and>
     personal_first (sort_Slice w by_Type fetched)"
    by simp
qed

text \<open>In \<open>demo\<close> the personal organization, fetched second, is moved to the front.\<close>

theorem RequireOrg_sorts_by_type_witness:
  "RequireOrg demo (ready ''secret'' []) common_trace =
     RequireOrg_switch demo (ready ''secret'' []) [org_personal, team ''acme'', team ''other'']
       (common_trace @ [GetOrganizations None]) \<and>
   mset [org_personal, team ''acme'', team ''other''] = mset [team ''acme'', org_personal, team ''other''] \<and>
   sorted (map Type [org_personal, team ''acme'', team ''other'']) \<and>
   personal_first [org_personal, team ''acme'', team ''other'']"
proof -
  have h: "sort_Slice_contract (sort_Slice demo) \<and>
      ctx_client (ready ''secret'' []) = Some \<lparr>token = ''secret''\<rparr> \<and>
      Authenticated \<lparr>token = ''secret''\<rparr> \<and>
      api_GetOrganizations demo None = Inr [team ''acme'', org_personal, team ''other'']"
    by (simp add: demo_facts insertionSort_contract ready_facts Authenticated_secret)
  from RequireOrg_sorts_by_type [of demo "ready ''secret'' []" "\<lparr>token = ''secret''\<rparr>"
      "[team ''acme'', org_personal, team ''other'']" common_trace, THEN mp, OF h]
  show ?thesis by (simp only: demo_facts insertionSort_demo)
qed

text \<open>C3 as stated fails: \<^verbatim>\<open>sort.Slice\<close> is not the stable sort. With the sort of Go
  up to 1.18 and seven organizations, the personal one last, the pass with gap six
  swaps the first and the last entry: the shared organization \<open>t0\<close> ends behind
  \<open>t1\<close> to \<open>t5\<close>, which were fetched after it. The prompt lists them in that
  order, and the answer \<open>1\<close> selects \<open>t1\<close>.\<close>

theorem RequireOrg_sort_not_stable:
  "sort_Slice_contract (sort_Slice go118) \<and>
   api_GetOrganizations go118 None = Inr seven \<and>
   sort_Slice go118 by_Type seven =
     [org_personal, team ''t1'', team ''t2'', team ''t3'', team ''t4'', team ''t5'', team ''t0''] \<and>
   \<not> keeps_fetch_order seven (sort_Slice go118 by_Type seven) \<and>
   RequireOrg go118 (ready ''secret'' []) [] =
     (Inr (WithOrg (ready ''secret'' []) (team ''t1'')),
      [GetOrganizations None,
       AskOne_Select ''Select organization:''
         [''Ada (personal)'', ''t1 (t1)'', ''t2 (t2)'', ''t3 (t3)'', ''t4 (t4)'', ''t5 (t5)'', ''t0 (t0)''] 15])"
proof -
  have srt: "sort_Slice go118 = quickSort_short"
    by (simp add: go118_def demo_def)
  have fetch: "api_GetOrganizations go118 None = Inr seven"
    by (simp add: go118_def demo_def)
  have ans: "survey_Select go118 = (\<lambda>options. Inr 1)"
    by (simp add: go118_def demo_def)
  have order: "\<not> keeps_fetch_order seven (quickSort_short by_Type seven)"
  proof
    assume "keeps_fetch_order seven (quickSort_short by_Type seven)"
    moreover have "''SHARED'' \<in> set (map Type (seven @ quickSort_short by_Type seven))"
      by (simp add: seven_def team_def)
    ultimately have "filter (\<lambda>org. Type org = ''SHARED'') (quickSort_short by_Type seven) =
        filter (\<lambda>org. Type org = ''SHARED'') seven"
      unfolding keeps_fetch_order_def by (rule bspec)
    then show False
      by (simp add: quickSort_short_seven) (simp add: seven_def team_def org_personal_def)
  qed
  have run: "RequireOrg go118 (ready ''secret'' []) [] =
     (Inr (WithOrg (ready ''secret'' []) (team ''t1'')),
      [GetOrganizations None,
       AskOne_Select ''Select organization:''
         [''Ada (personal)'', ''t1 (t1)'', ''t2 (t2)'', ''t3 (t3)'', ''t4 (t4)'', ''t5 (t5)'', ''t0 (t0)''] 15])"
    by (simp add: RequireOrg_def RequireSession_def RequireOrg_switch_def selectOrg_def
        ready_facts Authenticated_def fetch srt ans quickSort_short_seven option_label_def)
       (simp add: team_def org_personal_def)
  from srt fetch order run quickSort_short_contract quickSort_short_seven show ?thesis by simp
qed

subsection \<open>A sole personal organization is selected without a prompt\<close>

text \<open>C4. With a session, an empty slug and a fetch that returns exactly one
  organization, of type \<^verbatim>\<open>PERSONAL\<close>, \<^verbatim>\<open>RequireOrg\<close> stores that organization: the
  field \<open>ctx_org\<close> of the returned context holds it. The trace gains the fetch and one
  warning that names the organization; there is no prompt event in it.\<close>

theorem RequireOrg_sole_personal:
  "sort_Slice_contract (sort_Slice w) \<and>
   ctx_client ctx = Some c \<and> Authenticated c \<and>
   ctx_config ctx = Some cfg \<and> Organization cfg = [] \<and>
   api_GetOrganizations w None = Inr [org] \<and> Type org = ''PERSONAL'' \<longrightarrow>
     RequireOrg w ctx s =
       (Inr (WithOrg ctx org),
        s @ [GetOrganizations None,
             Warnf ''Automatically selected %s organization: %s\<newline>'' [''personal'', Name org]]) \<and>
     ctx_org (WithOrg ctx org) = Some org"
proof
  assume a: "sort_Slice_contract (sort_Slice w) \<and>
   ctx_client ctx = Some c \<and> Authenticated c \<and>
   ctx_config ctx = Some cfg \<and> Organization cfg = [] \<and>
   api_GetOrganizations w None = Inr [org] \<and> Type org = ''PERSONAL''"
  then have sorted: "sort_Slice w by_Type [org] = [org]"
    by (simp add: contract_single)
  from a sorted ToLower_PERSONAL have run: "RequireOrg w ctx s =
       (Inr (WithOrg ctx org),
        s @ [GetOrganizations None,
             Warnf ''Automatically selected %s organization: %s\<newline>'' [''personal'', Name org]])"
    by (simp add: RequireOrg_def RequireSession_def RequireOrg_switch_def)
  from run ctx_org_WithOrg [of ctx org] show "RequireOrg w ctx s =
       (Inr (WithOrg ctx org),
        s @ [GetOrganizations None,
             Warnf ''Automatically selected %s organization: %s\<newline>'' [''personal'', Name org]]) \<and>
     ctx_org (WithOrg ctx org) = Some org"
    by (rule conjI)
qed

theorem RequireOrg_sole_personal_witness:
  "RequireOrg solo (ready ''secret'' []) common_trace =
     (Inr (WithOrg (ready ''secret'' []) org_personal),
      common_trace @ [GetOrganizations None,
         Warnf ''Automatically selected %s organization: %s\<newline>'' [''personal'', ''Ada'']]) \<and>
   ctx_org (WithOrg (ready ''secret'' []) org_personal) = Some org_personal"
proof -
  have h: "sort_Slice_contract (sort_Slice solo) \<and>
     ctx_client (ready ''secret'' []) = Some \<lparr>token = ''secret''\<rparr> \<and>
     Authenticated \<lparr>token = ''secret''\<rparr> \<and>
     ctx_config (ready ''secret'' []) =
       Some \<lparr>APIBaseURL = ''B'', AccessToken = ''secret'', Organization = [], LogGQLErrors = False\<rparr> \<and>
     Organization \<lparr>APIBaseURL = ''B'', AccessToken = ''secret'', Organization = [], LogGQLErrors = False\<rparr> = [] \<and>
     api_GetOrganizations solo None = Inr [org_personal] \<and> Type org_personal = ''PERSONAL''"
    by (simp add: solo_def demo_def insertionSort_contract ready_def Authenticated_def org_personal_def)
  have n: "Name org_personal = ''Ada''"
    by (simp add: org_personal_def)
  from RequireOrg_sole_personal [of solo "ready ''secret'' []" "\<lparr>token = ''secret''\<rparr>"
      "\<lparr>APIBaseURL = ''B'', AccessToken = ''secret'', Organization = [], LogGQLErrors = False\<rparr>"
      org_personal common_trace, THEN mp, OF h]
  show ?thesis by (simp only: n)
qed

subsection \<open>Precedence of the configuration sources\<close>

text \<open>C5. When the config file is read, or is missing, \<^verbatim>\<open>loadConfig\<close> succeeds and
  stores the configuration built in the order defaults, environment, file, flags.
  Every option then has the value of the highest source that sets it: flags over file
  over environment over the default.\<close>

theorem loadConfig_precedence:
  assumes "ctx_configFile ctx = Some path"
    and "case config_file w path of Inr src \<Rightarrow> True | Inl err \<Rightarrow> errors_Is err ErrNotExist"
  shows "\<exists>cfg s'.
      loadConfig w ctx s = (Inr (ctx\<lparr>ctx_config := Some cfg\<rparr>), s') \<and>
      cfg = ApplyFlags (ctx_flags ctx)
              (overlay (file_layer w path) (ApplyEnv w (config_New w))) \<and>
      APIBaseURL cfg =
        winner (APIBaseURL (config_defaults w)) (set_APIBaseURL (config_env w))
          (set_APIBaseURL (file_layer w path)) (set_APIBaseURL (ctx_flags ctx)) \<and>
      AccessToken cfg =
        winner (AccessToken (config_defaults w)) (set_AccessToken (config_env w))
          (set_AccessToken (file_layer w path)) (set_AccessToken (ctx_flags ctx)) \<and>
      Organization cfg =
        winner (Organization (config_defaults w)) (set_Organization (config_env w))
          (set_Organization (file_layer w path)) (set_Organization (ctx_flags ctx)) \<and>
      LogGQLErrors cfg =
        winner (LogGQLErrors (config_defaults w)) (set_LogGQLErrors (config_env w))
          (set_LogGQLErrors (file_layer w path)) (set_LogGQLErrors (ctx_flags ctx))"
proof -
  from loadConfig_layers [OF assms, of s] obtain s' where
    "loadConfig w ctx s =
      (Inr (ctx\<lparr>ctx_config := Some (overlay (ctx_flags ctx)
              (overlay (file_layer w path) (overlay (config_env w) (config_defaults w))))\<rparr>), s')"
    by blast
  then show ?thesis
    by (simp add: layers_winner ApplyFlags_def ApplyEnv_def config_New_def)
qed

text \<open>The spec's scenario: the environment sets the base URL \<open>A\<close>, the file sets
  \<open>B\<close> and the slug \<open>acme\<close>, the flags set the slug to the empty string. The result
  has the base URL \<open>B\<close> and the empty slug.\<close>

theorem loadConfig_precedence_witness:
  "\<exists>cfg s'.
     loadConfig demo (before_load (nothing_set\<lparr>set_Organization := Some []\<rparr>)) [] =
       (Inr ((before_load (nothing_set\<lparr>set_Organization := Some []\<rparr>))\<lparr>ctx_config := Some cfg\<rparr>), s') \<and>
     APIBaseURL cfg = ''B'' \<and> AccessToken cfg = ''secret'' \<and> Organization cfg = [] \<and>
     LogGQLErrors cfg = False"
proof -
  let ?ctx = "before_load (nothing_set\<lparr>set_Organization := Some []\<rparr>)"
  have p: "ctx_configFile ?ctx = Some ''/home/ada/.fly/config.yml''"
    by (simp add: before_load_def)
  have f: "case config_file demo ''/home/ada/.fly/config.yml'' of
             Inr src \<Rightarrow> True | Inl err \<Rightarrow> errors_Is err ErrNotExist"
    by (simp add: demo_def)
  have layer: "file_layer demo ''/home/ada/.fly/config.yml'' = demo_file"
    by (simp add: file_layer_def demo_def)
  from loadConfig_precedence [OF p f, of "[]"] obtain cfg s' where
    run: "loadConfig demo ?ctx [] = (Inr (?ctx\<lparr>ctx_config := Some cfg\<rparr>), s')"
    and url: "APIBaseURL cfg =
        winner (APIBaseURL (config_defaults demo)) (set_APIBaseURL (config_env demo))
          (set_APIBaseURL (file_layer demo ''/home/ada/.fly/config.yml'')) (set_APIBaseURL (ctx_flags ?ctx))"
    and tok: "AccessToken cfg =
        winner (AccessToken (config_defaults demo)) (set_AccessToken (config_env demo))
          (set_AccessToken (file_layer demo ''/home/ada/.fly/config.yml'')) (set_AccessToken (ctx_flags ?ctx))"
    and org: "Organization cfg =
        winner (Organization (config_defaults demo)) (set_Organization (config_env demo))
          (set_Organization (file_layer demo ''/home/ada/.fly/config.yml'')) (set_Organization (ctx_flags ?ctx))"
    and lg: "LogGQLErrors cfg =
        winner (LogGQLErrors (config_defaults demo)) (set_LogGQLErrors (config_env demo))
          (set_LogGQLErrors (file_layer demo ''/home/ada/.fly/config.yml'')) (set_LogGQLErrors (ctx_flags ?ctx))"
    by blast
  have "APIBaseURL cfg = ''B''"
    unfolding url layer by (simp add: winner_def demo_def demo_file_def before_load_def nothing_set_def)
  moreover have "AccessToken cfg = ''secret''"
    unfolding tok layer by (simp add: winner_def demo_def demo_file_def before_load_def nothing_set_def)
  moreover have "Organization cfg = []"
    unfolding org layer by (simp add: winner_def demo_def demo_file_def before_load_def nothing_set_def)
  moreover have "LogGQLErrors cfg = False"
    unfolding lg layer by (simp add: winner_def demo_def demo_file_def before_load_def nothing_set_def)
  ultimately show ?thesis using run by blast
qed

subsection \<open>A missing config file is tolerated, any other failure is terminal\<close>

text \<open>C6. When \<^verbatim>\<open>ApplyFile\<close> fails with an error that is \<^verbatim>\<open>fs.ErrNotExist\<close>,
  \<^verbatim>\<open>loadConfig\<close> logs a warning and stores the configuration of environment and flags.
  When it fails with any other error, \<^verbatim>\<open>loadConfig\<close> returns that error and logs
  nothing; the dispatcher then returns the error after the four preparers before
  \<^verbatim>\<open>loadConfig\<close>, without creating the client and without running the command's
  preparers or its body.\<close>

theorem loadConfig_missing_file:
  "(ctx_configFile ctx = Some path \<and> config_file w path = Inl err \<and> errors_Is err ErrNotExist \<longrightarrow>
      loadConfig w ctx s =
        (Inr (ctx\<lparr>ctx_config := Some (ApplyFlags (ctx_flags ctx) (ApplyEnv w (config_New w)))\<rparr>),
         s @ [Warnf ''no config file found at %s'' [path], Debugf ''config initialized.'' []])) \<and>
   (ctx_configFile ctx = Some path \<and> config_file w path = Inl err \<and> \<not> errors_Is err ErrNotExist \<longrightarrow>
      loadConfig w ctx s = (Inl err, s)) \<and>
   (os_Getwd w = Inr wd \<and> os_UserHomeDir w = Inr home \<and>
    config_file w (filepath_Join w (filepath_Join w home ''.fly'') ''config.yml'') = Inl err \<and>
    \<not> errors_Is err ErrNotExist \<longrightarrow>
      RunE w (Some fn) preparers cmd s =
        Some (Some err,
              s @ [Debugf ''determined working directory: %q'' [wd],
                   Debugf ''determined user home directory: %q'' [home],
                   Debugf ''determined config directory: %q'' [filepath_Join w home ''.fly''],
                   Debugf ''determined config file: %q''
                     [filepath_Join w (filepath_Join w home ''.fly'') ''config.yml'']]))"
proof (intro conjI impI)
  assume "ctx_configFile ctx = Some path \<and> config_file w path = Inl err \<and> errors_Is err ErrNotExist"
  then show "loadConfig w ctx s =
        (Inr (ctx\<lparr>ctx_config := Some (ApplyFlags (ctx_flags ctx) (ApplyEnv w (config_New w)))\<rparr>),
         s @ [Warnf ''no config file found at %s'' [path], Debugf ''config initialized.'' []])"
    by (simp add: loadConfig_def ApplyFile_def)
next
  assume "ctx_configFile ctx = Some path \<and> config_file w path = Inl err \<and> \<not> errors_Is err ErrNotExist"
  then show "loadConfig w ctx s = (Inl err, s)"
    by (simp add: loadConfig_def ApplyFile_def)
next
  let ?path = "filepath_Join w (filepath_Join w home ''.fly'') ''config.yml''"
  let ?s = "s @ [Debugf ''determined working directory: %q'' [wd],
                 Debugf ''determined user home directory: %q'' [home],
                 Debugf ''determined config directory: %q'' [filepath_Join w home ''.fly''],
                 Debugf ''determined config file: %q'' [?path]]"
  assume a: "os_Getwd w = Inr wd \<and> os_UserHomeDir w = Inr home \<and>
    config_file w ?path = Inl err \<and> \<not> errors_Is err ErrNotExist"
  have first: "prepare (flag_NewContext cmd)
           [determineWorkingDir w, determineUserHomeDir w, determineConfigDir w,
            determineConfigFile w] s =
         (Inr ((flag_NewContext cmd)
                 \<lparr>ctx_workingDir := Some wd, ctx_userHomeDir := Some home,
                  ctx_configDir := Some (filepath_Join w home ''.fly''),
                  ctx_configFile := Some ?path\<rparr>), ?s)"
    using a by (intro prepare_to_config_file) simp_all
  from a have load: "loadConfig w ((flag_NewContext cmd)
                 \<lparr>ctx_workingDir := Some wd, ctx_userHomeDir := Some home,
                  ctx_configDir := Some (filepath_Join w home ''.fly''),
                  ctx_configFile := Some ?path\<rparr>) ?s = (Inl err, ?s)"
    by (simp add: loadConfig_def ApplyFile_def)
  let ?first = "[determineWorkingDir w, determineUserHomeDir w, determineConfigDir w,
            determineConfigFile w]"
  let ?ctx = "(flag_NewContext cmd)
                 \<lparr>ctx_workingDir := Some wd, ctx_userHomeDir := Some home,
                  ctx_configDir := Some (filepath_Join w home ''.fly''),
                  ctx_configFile := Some ?path\<rparr>"
  have "prepare (flag_NewContext cmd) (commonPreparers w @ preparers) s =
      prepare (flag_NewContext cmd)
        (?first @ (loadConfig w # [initClient, promptToUpdate] @ preparers)) s"
    by (simp add: commonPreparers_def)
  also have "\<dots> = (case prepare (flag_NewContext cmd) ?first s of
                      (Inl e, s') \<Rightarrow> (Inl e, s')
                    | (Inr c', s') \<Rightarrow>
                        prepare c' (loadConfig w # [initClient, promptToUpdate] @ preparers) s')"
    by (rule prepare_append)
  also have "\<dots> = prepare ?ctx (loadConfig w # [initClient, promptToUpdate] @ preparers) ?s"
    by (simp only: first prod.case sum.case)
  also have "\<dots> = (Inl err, ?s)"
    by (simp only: prepare.simps(2) load prod.case sum.case)
  finally have "prepare (flag_NewContext cmd) (commonPreparers w @ preparers) s = (Inl err, ?s)" .
  then show "RunE w (Some fn) preparers cmd s = Some (Some err, ?s)"
    by (simp add: RunE_def newRunE_chain)
qed

theorem loadConfig_missing_file_witness:
  "loadConfig no_file (before_load nothing_set) [] =
     (Inr ((before_load nothing_set)
             \<lparr>ctx_config := Some \<lparr>APIBaseURL = ''A'', AccessToken = ''secret'',
                                   Organization = [], LogGQLErrors = False\<rparr>\<rparr>),
      [Warnf ''no config file found at %s'' [''/home/ada/.fly/config.yml''],
       Debugf ''config initialized.'' []]) \<and>
   loadConfig bad_file (before_load nothing_set) [] =
     (Inl (External ''yaml: did not find expected key''), []) \<and>
   RunE bad_file (Some body) [RequireOrg bad_file] \<lparr>cmd_Flags = nothing_set\<rparr> [] =
     Some (Some (External ''yaml: did not find expected key''), to_config_file_trace)"
proof -
  let ?path = "''/home/ada/.fly/config.yml''"
  let ?missing = "PathError ''open'' ?path ErrNotExist"
  let ?bad = "External ''yaml: did not find expected key''"
  have h1: "ctx_configFile (before_load nothing_set) = Some ?path \<and>
      config_file no_file ?path = Inl ?missing \<and> errors_Is ?missing ErrNotExist"
    by (simp add: before_load_def no_file_def demo_def)
  have h2: "ctx_configFile (before_load nothing_set) = Some ?path \<and>
      config_file bad_file ?path = Inl ?bad \<and> \<not> errors_Is ?bad ErrNotExist"
    by (simp add: before_load_def bad_file_def demo_def)
  have h3: "os_Getwd bad_file = Inr ''/work'' \<and> os_UserHomeDir bad_file = Inr ''/home/ada'' \<and>
      config_file bad_file
        (filepath_Join bad_file (filepath_Join bad_file ''/home/ada'' ''.fly'') ''config.yml'') = Inl ?bad \<and>
      \<not> errors_Is ?bad ErrNotExist"
    by (simp add: bad_file_def demo_def)
  have joined: "filepath_Join bad_file ''/home/ada'' ''.fly'' = ''/home/ada/.fly''"
    "filepath_Join bad_file ''/home/ada/.fly'' ''config.yml'' = ''/home/ada/.fly/config.yml''"
    by (simp_all add: bad_file_def demo_def)
  from loadConfig_missing_file [of "before_load nothing_set" ?path no_file ?missing "[]",
      THEN conjunct1, THEN mp, OF h1]
  have c1: "loadConfig no_file (before_load nothing_set) [] =
     (Inr ((before_load nothing_set)
             \<lparr>ctx_config := Some \<lparr>APIBaseURL = ''A'', AccessToken = ''secret'',
                                   Organization = [], LogGQLErrors = False\<rparr>\<rparr>),
      [Warnf ''no config file found at %s'' [''/home/ada/.fly/config.yml''],
       Debugf ''config initialized.'' []])"
    by (simp add: ApplyFlags_def ApplyEnv_def config_New_def overlay_def no_file_def demo_def
        before_load_def nothing_set_def)
  from loadConfig_missing_file [of "before_load nothing_set" ?path bad_file ?bad "[]",
      THEN conjunct2, THEN conjunct1, THEN mp, OF h2]
  have c2: "loadConfig bad_file (before_load nothing_set) [] = (Inl ?bad, [])" .
  from loadConfig_missing_file [where w = bad_file and err = ?bad and wd = "''/work''"
      and home = "''/home/ada''" and fn = body and preparers = "[RequireOrg bad_file]"
      and cmd = "\<lparr>cmd_Flags = nothing_set\<rparr>" and s = "[]",
      THEN conjunct2, THEN conjunct2, THEN mp, OF h3]
  have c3: "RunE bad_file (Some body) [RequireOrg bad_file] \<lparr>cmd_Flags = nothing_set\<rparr> [] =
      Some (Some ?bad, to_config_file_trace)"
    by (simp add: joined to_config_file_trace_def)
  from c1 c2 c3 show ?thesis by blast
qed

subsection \<open>\<^verbatim>\<open>RequireSession\<close>\<close>

text \<open>C7. On a context that holds a client, \<^verbatim>\<open>RequireSession\<close> fails with
  \<^verbatim>\<open>ErrNoAuthToken\<close> exactly when the client is not authenticated, and returns the
  context it was given, with the trace untouched, exactly when it is. Running it twice
  in a chain gives what running it once gives.\<close>

theorem RequireSession_idempotent:
  "(ctx_client ctx = Some c \<longrightarrow>
      ((RequireSession ctx s = (Inl ErrNoAuthToken, s)) = (\<not> Authenticated c)) \<and>
      ((RequireSession ctx s = (Inr ctx, s)) = Authenticated c)) \<and>
   prepare ctx [RequireSession, RequireSession] s = prepare ctx [RequireSession] s \<and>
   prepare ctx [RequireSession] s = RequireSession ctx s"
  by (auto simp: RequireSession_def split: option.splits)

theorem RequireSession_idempotent_witness:
  "(RequireSession (ready ''secret'' []) [] = (Inr (ready ''secret'' []), [])) \<and>
   (RequireSession (ready [] []) [] = (Inl ErrNoAuthToken, [])) \<and>
   prepare (ready ''secret'' []) [RequireSession, RequireSession] [] = (Inr (ready ''secret'' []), []) \<and>
   prepare (ready [] []) [RequireSession, RequireSession] [] = (Inl ErrNoAuthToken, [])"
proof -
  have a: "ctx_client (ready ''secret'' []) = Some \<lparr>token = ''secret''\<rparr>"
    by (simp add: ready_def)
  have b: "ctx_client (ready [] []) = Some \<lparr>token = []\<rparr>"
    by (simp add: ready_def)
  have c: "Authenticated \<lparr>token = ''secret''\<rparr>" "\<not> Authenticated \<lparr>token = []\<rparr>"
    by (simp_all add: Authenticated_def)
  from RequireSession_idempotent [of "ready ''secret'' []" "\<lparr>token = ''secret''\<rparr>" "[]"]
       RequireSession_idempotent [of "ready [] []" "\<lparr>token = []\<rparr>" "[]"] a b c
  show ?thesis by simp
qed

subsection \<open>\<^verbatim>\<open>RequireOrg\<close> requires a session\<close>

text \<open>C8. When the client is not authenticated, \<^verbatim>\<open>RequireOrg\<close> returns what
  \<^verbatim>\<open>RequireSession\<close> returns, \<^verbatim>\<open>ErrNoAuthToken\<close>, and leaves the trace as it was:
  no fetch of the organizations and no prompt.\<close>

theorem RequireOrg_requires_session:
  "ctx_client ctx = Some c \<and> \<not> Authenticated c \<longrightarrow>
     RequireOrg w ctx s = (Inl ErrNoAuthToken, s) \<and> RequireOrg w ctx s = RequireSession ctx s"
  by (simp add: RequireOrg_def RequireSession_def)

theorem RequireOrg_requires_session_witness:
  "RequireOrg demo (ready [] ''acme'') common_trace = (Inl ErrNoAuthToken, common_trace) \<and>
   RequireSession (ready [] ''acme'') common_trace = (Inl ErrNoAuthToken, common_trace)"
proof -
  have a: "ctx_client (ready [] ''acme'') = Some \<lparr>token = []\<rparr> \<and> \<not> Authenticated \<lparr>token = []\<rparr>"
    by (simp add: ready_def Authenticated_def)
  from RequireOrg_requires_session [of "ready [] ''acme''" "\<lparr>token = []\<rparr>" demo common_trace] a
  show ?thesis by metis
qed

subsection \<open>Cancelling the prompt\<close>




subsection \<open>The legacy selector ignores the slug\<close>

text \<open>C10. \<^verbatim>\<open>selectOrganization\<close> returns the same result and the same trace for any
  two slugs, and so does \<^verbatim>\<open>runMove\<close> for any two values of its \<^verbatim>\<open>org\<close> option. A sole
  personal organization is returned right after the fetch, in any world: neither the
  sort nor the prompt is consulted.\<close>

theorem selectOrganization_ignores_slug:
  "selectOrganization w slug typeFilter s = selectOrganization w slug' typeFilter s \<and>
   runMove w (cc\<lparr>Config_org := slug\<rparr>) s = runMove w (cc\<lparr>Config_org := slug'\<rparr>) s \<and>
   (api_GetOrganizations w typeFilter = Inr [org] \<and> Type org = ''PERSONAL'' \<longrightarrow>
      selectOrganization w slug typeFilter s =
        (Inr org,
         s @ [GetOrganizations typeFilter,
              Printf ''Automatically selected %s organization: %s\<newline>''
                [''personal'', Name org]]))"
proof (intro conjI impI)
  show same: "selectOrganization w slug typeFilter s = selectOrganization w slug' typeFilter s"
    for slug slug' typeFilter s
    by (simp add: selectOrganization_def)
  show "runMove w (cc\<lparr>Config_org := slug\<rparr>) s = runMove w (cc\<lparr>Config_org := slug'\<rparr>) s"
    by (simp add: runMove_def same [of slug _ _ slug'] cong: list.case_cong sum.case_cong)
  assume "api_GetOrganizations w typeFilter = Inr [org] \<and> Type org = ''PERSONAL''"
  then show "selectOrganization w slug typeFilter s =
        (Inr org,
         s @ [GetOrganizations typeFilter,
              Printf ''Automatically selected %s organization: %s\<newline>''
                [''personal'', Name org]])"
    by (simp add: selectOrganization_def ToLower_PERSONAL)
qed

text \<open>In \<open>demo\<close> the slug \<open>other\<close> names a listed organization, and yet the selector
  prompts and returns the organization the user picks, \<open>acme\<close>; in \<open>solo\<close> the slug
  \<open>acme\<close> names no listed organization, and the personal one is returned.\<close>

theorem selectOrganization_ignores_slug_witness:
  "selectOrganization demo ''other'' None [] = selectOrganization demo [] None [] \<and>
   selectOrganization demo ''other'' None [] =
     (Inr (team ''acme''),
      [GetOrganizations None,
       AskOne_Select ''Select organization:''
         [''Ada (personal)'', ''acme (acme)'', ''other (other)''] 15]) \<and>
   runMove demo \<lparr>Args = [''app''], Config_org = ''other'', Config_yes = True\<rparr> [] =
     runMove demo \<lparr>Args = [''app''], Config_org = [], Config_yes = True\<rparr> [] \<and>
   selectOrganization solo ''acme'' None [] =
     (Inr org_personal,
      [GetOrganizations None,
       Printf ''Automatically selected %s organization: %s\<newline>'' [''personal'', ''Ada'']])"
proof -
  let ?cc = "\<lparr>Args = [''app''], Config_org = [], Config_yes = True\<rparr>"
  note demo_inst = selectOrganization_ignores_slug [where w = demo and slug = "''other''"
      and slug' = "[]" and typeFilter = None and s = "[]" and cc = ?cc]
  have h: "api_GetOrganizations solo None = Inr [org_personal] \<and> Type org_personal = ''PERSONAL''"
    by (simp add: solo_facts org_personal_def)
  from demo_inst have c1: "selectOrganization demo ''other'' None [] = selectOrganization demo [] None []"
    by (rule conjunct1)
  have c2: "selectOrganization demo ''other'' None [] =
     (Inr (team ''acme''),
      [GetOrganizations None,
       AskOne_Select ''Select organization:''
         [''Ada (personal)'', ''acme (acme)'', ''other (other)''] 15])"
    by (simp add: selectOrganization_def demo_facts insertionSort_demo demo_labels Let_def)
  from demo_inst [THEN conjunct2, THEN conjunct1]
  have c3: "runMove demo \<lparr>Args = [''app''], Config_org = ''other'', Config_yes = True\<rparr> [] =
     runMove demo \<lparr>Args = [''app''], Config_org = [], Config_yes = True\<rparr> []"
    by simp
  from selectOrganization_ignores_slug [where w = solo and slug = "''acme''" and typeFilter = None
      and s = "[]" and org = org_personal, THEN conjunct2, THEN conjunct2, THEN mp, OF h]
  have c4: "selectOrganization solo ''acme'' None [] =
     (Inr org_personal,
      [GetOrganizations None,
       Printf ''Automatically selected %s organization: %s\<newline>'' [''personal'', ''Ada'']])"
    by (simp add: org_personal_def)
  from c1 c2 c3 c4 show ?thesis by blast
qed

end
